theory Spec2Isabelle
  imports Main
begin

section \<open>Python values\<close>

text \<open>
  The values a keyword argument can carry in this development: \<open>None\<close>, booleans,
  integers (unbounded) and strings. Floats and containers as keyword arguments are outside
  the model.
\<close>

datatype pyval = PNone | PBool bool | PInt int | PStr string

datatype py_exception = TypeError

type_synonym kwargs = "(string \<times> pyval) list"

text \<open>\<open>kwargs.get(key)\<close>: the value stored under the key, \<open>None\<close> when there is none.\<close>

definition dict_get :: "(string \<times> pyval) list \<Rightarrow> string \<Rightarrow> pyval" where
  "dict_get d k = (case map_of d k of None \<Rightarrow> PNone | Some v \<Rightarrow> v)"

text \<open>
  Python orders integers with integers, and a \<open>bool\<close> is an \<open>int\<close> (\<open>False\<close> is 0,
  \<open>True\<close> is 1). Ordering an integer against \<open>None\<close> or a string raises \<open>TypeError\<close>.
\<close>

fun num_value :: "pyval \<Rightarrow> int option" where
  "num_value (PInt n) = Some n"
| "num_value (PBool b) = Some (if b then 1 else 0)"
| "num_value PNone = None"
| "num_value (PStr s) = None"

text \<open>\<open>n <= v\<close> and \<open>v <= n\<close> for an integer literal \<open>n\<close>.\<close>

definition int_le_val :: "int \<Rightarrow> pyval \<Rightarrow> py_exception + bool" where
  "int_le_val n v = (case num_value v of None \<Rightarrow> Inl TypeError | Some m \<Rightarrow> Inr (n \<le> m))"

definition val_le_int :: "pyval \<Rightarrow> int \<Rightarrow> py_exception + bool" where
  "val_le_int v n = (case num_value v of None \<Rightarrow> Inl TypeError | Some m \<Rightarrow> Inr (m \<le> n))"

text \<open>\<open>str(n)\<close> for an integer: its decimal digits, with a minus sign when negative.\<close>

definition digit_char :: "nat \<Rightarrow> char" where
  "digit_char n = ''0123456789'' ! n"

function str_nat :: "nat \<Rightarrow> string" where
  "str_nat n = (if n < 10 then [digit_char n] else str_nat (n div 10) @ [digit_char (n mod 10)])"
  by pat_completeness auto
termination
  by (relation "measure id") auto

declare str_nat.simps [simp del]

definition str_int :: "int \<Rightarrow> string" where
  "str_int i = (if i < 0 then CHR ''-'' # str_nat (nat (- i)) else str_nat (nat i))"

section \<open>The device contract and the smart light\<close>

text \<open>
  \<open>Device.__init__\<close> stores the identity and the address. The FastAPI application object
  belongs to the transport and is not modelled.
\<close>

record device_base =
  device_id :: string
  host :: string
  port :: int

text \<open>\<open>LightState\<close>: the assignment to a field is not validated, so \<open>brightness\<close> holds
  whatever value passed the range test.\<close>

record light_state =
  is_on :: bool
  brightness :: pyval

record smart_light_device = device_base +
  state :: light_state

definition SmartLightDevice :: "string \<Rightarrow> string \<Rightarrow> int \<Rightarrow> smart_light_device" where
  "SmartLightDevice did h p =
     \<lparr>device_id = did, host = h, port = p, state = \<lparr>is_on = False, brightness = PInt 50\<rparr>\<rparr>"

text \<open>
  What a line printed by the logging decorator records: the identity, and for an action its
  name and the keyword arguments.
\<close>

datatype 'k log_event = LogGetStatus string | LogPerformAction string string 'k

text \<open>
  A method call yields its outcome (the returned value, or the exception raised), the object
  after the call, and the lines printed during it.
\<close>

type_synonym ('s, 'r, 'k) call = "(py_exception + 'r) \<times> 's \<times> 'k log_event list"

type_synonym status = "(string \<times> pyval) list"

definition get_status :: "smart_light_device \<Rightarrow> (smart_light_device, status, 'k) call" where
  "get_status self =
     (Inr [(''device_id'', PStr (device_id self)),
           (''type'', PStr ''smart_light''),
           (''is_on'', PBool (is_on (state self))),
           (''brightness'', brightness (state self)),
           (''connection'', PStr (host self @ '':'' @ str_int (port self)))],
      self, [])"

definition perform_action ::
  "smart_light_device \<Rightarrow> string \<Rightarrow> kwargs \<Rightarrow> (smart_light_device, bool, 'k) call" where
  "perform_action self action kw =
     (if action = ''power'' then
        (let st = dict_get kw ''state'' in
         if st = PStr ''on'' then
           (Inr True, self\<lparr>state := (state self)\<lparr>is_on := True\<rparr>\<rparr>, [])
         else if st = PStr ''off'' then
           (Inr True, self\<lparr>state := (state self)\<lparr>is_on := False\<rparr>\<rparr>, [])
         else (Inr False, self, []))
      else if action = ''brightness'' then
        (let level = dict_get kw ''level'' in
         case int_le_val 0 level of
           Inl e \<Rightarrow> (Inl e, self, [])
         | Inr False \<Rightarrow> (Inr False, self, [])
         | Inr True \<Rightarrow>
             (case val_le_int level 100 of
                Inl e \<Rightarrow> (Inl e, self, [])
              | Inr False \<Rightarrow> (Inr False, self, [])
              | Inr True \<Rightarrow>
                  (Inr True, self\<lparr>state := (state self)\<lparr>brightness := level\<rparr>\<rparr>, [])))
      else (Inr False, self, []))"

type_synonym light_call = "(smart_light_device, bool, kwargs) call"

type_synonym light_status_call = "(smart_light_device, status, kwargs) call"

section \<open>The logging decorator\<close>

text \<open>
  \<open>LoggingDeviceDecorator\<close> is itself a \<open>Device\<close>: it copies the identity and the address
  of the device it wraps and keeps the device. The wrapped device is any \<open>Device\<close>, a
  decorator included, so its type and its two methods are parameters: the call
  \<open>self._device.get_status()\<close> is dispatched to whatever the wrapped object implements.
  The outcome \<open>'o\<close> of a wrapped call is its returned value or the exception it raised.
\<close>

record 'w logging_device_decorator = device_base +
  wrapped_device :: 'w

definition LoggingDeviceDecorator ::
  "'a device_base_scheme \<Rightarrow> ('a device_base_scheme) logging_device_decorator" where
  "LoggingDeviceDecorator device =
     \<lparr>device_id = device_id device, host = host device, port = port device,
      wrapped_device = device\<rparr>"

definition logging_get_status ::
  "('w \<Rightarrow> 'o \<times> 'w \<times> 'k log_event list) \<Rightarrow> 'w logging_device_decorator
     \<Rightarrow> 'o \<times> 'w logging_device_decorator \<times> 'k log_event list" where
  "logging_get_status wrapped_get_status self =
     (case wrapped_get_status (wrapped_device self) of
        (outcome, device', printed) \<Rightarrow>
          (outcome, self\<lparr>wrapped_device := device'\<rparr>, LogGetStatus (device_id self) # printed))"

definition logging_perform_action ::
  "('w \<Rightarrow> string \<Rightarrow> 'k \<Rightarrow> 'o \<times> 'w \<times> 'k log_event list) \<Rightarrow> 'w logging_device_decorator
     \<Rightarrow> string \<Rightarrow> 'k \<Rightarrow> 'o \<times> 'w logging_device_decorator \<times> 'k log_event list" where
  "logging_perform_action wrapped_perform_action self action kw =
     (case wrapped_perform_action (wrapped_device self) action kw of
        (outcome, device', printed) \<Rightarrow>
          (outcome, self\<lparr>wrapped_device := device'\<rparr>,
           LogPerformAction action (device_id self) kw # printed))"

section \<open>The facade\<close>

text \<open>
  What \<open>response.json()\<close> can return. \<open>JNull\<close> is Python's \<open>None\<close>, the value the
  facade also returns for "absent". Numbers with a fraction are outside the model.
\<close>

datatype json = JNull | JBool bool | JInt int | JStr string
  | JArray "json list" | JObject "(string \<times> json) list"

text \<open>The truth value Python gives a value in \<open>if status:\<close>.\<close>

fun truthy :: "json \<Rightarrow> bool" where
  "truthy JNull = False"
| "truthy (JBool b) = b"
| "truthy (JInt n) = (n \<noteq> 0)"
| "truthy (JStr s) = (s \<noteq> [])"
| "truthy (JArray xs) = (xs \<noteq> [])"
| "truthy (JObject kvs) = (kvs \<noteq> [])"

text \<open>
  The network is the \<open>requests\<close> library and whatever answers behind it. A request is
  its URL and its timeout. \<open>requests.get\<close> and \<open>requests.post\<close> either raise a
  \<open>RequestException\<close> (no connection, timeout, bad URL) or return a response with a status
  code and a body, which is JSON or not. The answer may depend on everything requested so
  far, so the network is a function of the history of requests, and the history is the
  state the facade's calls pass along.
\<close>

datatype http_request = GET string nat | POST string nat

datatype http_reply = RequestException | Response nat "json option"

type_synonym network = "http_request list \<Rightarrow> http_request \<Rightarrow> http_reply"

text \<open>
  \<open>response.raise_for_status()\<close> raises \<open>HTTPError\<close>, a \<open>RequestException\<close>, exactly
  for the client and server error codes. \<open>response.json()\<close> on a body that is not JSON
  raises \<open>requests.exceptions.JSONDecodeError\<close>, also a \<open>RequestException\<close>.
\<close>

definition raise_for_status :: "nat \<Rightarrow> bool" where
  "raise_for_status code = (400 \<le> code \<and> code < 600)"

text \<open>\<open>str(v)\<close> of a keyword argument's value, and \<open>sep.join(xs)\<close>.\<close>

fun py_str :: "pyval \<Rightarrow> string" where
  "py_str PNone = ''None''"
| "py_str (PBool b) = (if b then ''True'' else ''False'')"
| "py_str (PInt n) = str_int n"
| "py_str (PStr s) = s"

fun join :: "string \<Rightarrow> string list \<Rightarrow> string" where
  "join sep [] = []"
| "join sep [x] = x"
| "join sep (x # y # ys) = x @ sep @ join sep (y # ys)"

text \<open>
  The registry is a Python dictionary: keys are unique and keep the order in which they
  were first inserted. \<open>d[k] = v\<close> replaces the value of a key that is there, in place,
  and appends a new key at the end.
\<close>

fun dict_set :: "'k \<Rightarrow> 'v \<Rightarrow> ('k \<times> 'v) list \<Rightarrow> ('k \<times> 'v) list" where
  "dict_set k v [] = [(k, v)]"
| "dict_set k v ((k', v') # ps) = (if k' = k then (k', v) # ps else (k', v') # dict_set k v ps)"

record iot_facade =
  devices :: "(string \<times> string \<times> int) list"

definition IOTFacade :: iot_facade where
  "IOTFacade = \<lparr>devices = []\<rparr>"

definition register_device :: "iot_facade \<Rightarrow> 'a device_base_scheme \<Rightarrow> string \<times> iot_facade" where
  "register_device self device =
     (''Device '' @ device_id device @ '' registered successfully'',
      self\<lparr>devices := dict_set (device_id device) (host device, port device) (devices self)\<rparr>)"

definition get_device_status ::
  "network \<Rightarrow> iot_facade \<Rightarrow> string \<Rightarrow> http_request list \<Rightarrow> json \<times> http_request list" where
  "get_device_status net self did hist =
     (case map_of (devices self) did of
        None \<Rightarrow> (JNull, hist)
      | Some (h, p) \<Rightarrow>
          (let url = ''http://'' @ h @ '':'' @ str_int p @ ''/status'';
               req = GET url 2
           in case net hist req of
                RequestException \<Rightarrow> (JNull, hist @ [req])
              | Response code body \<Rightarrow>
                  if raise_for_status code then (JNull, hist @ [req])
                  else (case body of
                          None \<Rightarrow> (JNull, hist @ [req])
                        | Some j \<Rightarrow> (j, hist @ [req]))))"

definition perform_device_action ::
  "network \<Rightarrow> iot_facade \<Rightarrow> string \<Rightarrow> string \<Rightarrow> kwargs \<Rightarrow> http_request list
     \<Rightarrow> bool \<times> http_request list" where
  "perform_device_action net self did action kw hist =
     (case map_of (devices self) did of
        None \<Rightarrow> (False, hist)
      | Some (h, p) \<Rightarrow>
          (let params = map py_str (map snd kw);
               url_path = ''/'' @ action;
               url_path = (if params \<noteq> [] then url_path @ ''/'' @ join ''/'' params
                           else url_path);
               full_url = ''http://'' @ h @ '':'' @ str_int p @ url_path;
               req = POST full_url 2
           in case net hist req of
                RequestException \<Rightarrow> (False, hist @ [req])
              | Response code body \<Rightarrow>
                  if raise_for_status code then (False, hist @ [req])
                  else (True, hist @ [req])))"

text \<open>The loop of \<open>get_all_status\<close> over the keys of the registry, in their order.\<close>

fun get_all_status_loop ::
  "network \<Rightarrow> iot_facade \<Rightarrow> string list \<Rightarrow> json list \<Rightarrow> http_request list
     \<Rightarrow> json list \<times> http_request list" where
  "get_all_status_loop net self [] statuses hist = (statuses, hist)"
| "get_all_status_loop net self (did # dids) statuses hist =
     (case get_device_status net self did hist of
        (status, hist') \<Rightarrow>
          get_all_status_loop net self dids
            (if truthy status then statuses @ [status] else statuses) hist')"

definition get_all_status ::
  "network \<Rightarrow> iot_facade \<Rightarrow> http_request list \<Rightarrow> json list \<times> http_request list" where
  "get_all_status net self hist = get_all_status_loop net self (map fst (devices self)) [] hist"

text \<open>
  HTTP's class of successful responses: the status codes 200 to 299. A network that gives
  one and the same reply to every request.
\<close>

definition http_success_status :: "nat \<Rightarrow> bool" where
  "http_success_status code = (200 \<le> code \<and> code < 300)"

definition answer_with :: "http_reply \<Rightarrow> network" where
  "answer_with reply hist req = reply"

section \<open>Decimal rendering\<close>

lemma str_nat_digit: "n < 10 \<Longrightarrow> str_nat n = [digit_char n]"
  by (simp add: str_nat.simps)

lemma str_nat_step: "10 \<le> n \<Longrightarrow> str_nat n = str_nat (n div 10) @ [digit_char (n mod 10)]"
  by (subst str_nat.simps) simp

lemma str_nat_nonempty: "str_nat n \<noteq> []"
  by (subst str_nat.simps) simp

lemma str_int_8002: "str_int 8002 = ''8002''"
  by (simp add: str_int_def str_nat_step str_nat_digit digit_char_def)

section \<open>The smart light: brightness\<close>

text \<open>
  C3. For every integer \<open>L\<close> with \<open>0 \<le> L \<le> 100\<close>,
  \<open>perform_action("brightness", level=L)\<close> returns true and the brightness is \<open>L\<close>
  afterwards; for every integer outside the range it returns false and the device is as
  before.
\<close>

theorem brightness_level_range:
  fixes self :: smart_light_device and L :: int
  defines "r \<equiv> (perform_action self ''brightness'' [(''level'', PInt L)] :: light_call)"
  shows "(0 \<le> L \<and> L \<le> 100 \<longrightarrow>
            fst r = Inr True \<and> brightness (state (fst (snd r))) = PInt L)
       \<and> (L < 0 \<or> 100 < L \<longrightarrow>
            fst r = Inr False \<and> fst (snd r) = self)"
  unfolding r_def
  by (auto simp: perform_action_def dict_get_def int_le_val_def val_le_int_def)

theorem brightness_level_range_witness:
  "((0::int) \<le> 70 \<and> (70::int) \<le> 100)
   \<and> fst (perform_action (SmartLightDevice ''L1'' ''127.0.0.1'' 8002) ''brightness''
            [(''level'', PInt 70)] :: light_call) = Inr True
   \<and> brightness (state (fst (snd (perform_action (SmartLightDevice ''L1'' ''127.0.0.1'' 8002)
            ''brightness'' [(''level'', PInt 70)] :: light_call)))) = PInt 70
   \<and> (100::int) < 101
   \<and> fst (perform_action (SmartLightDevice ''L1'' ''127.0.0.1'' 8002) ''brightness''
            [(''level'', PInt 101)] :: light_call) = Inr False
   \<and> fst (snd (perform_action (SmartLightDevice ''L1'' ''127.0.0.1'' 8002) ''brightness''
            [(''level'', PInt 101)] :: light_call)) = SmartLightDevice ''L1'' ''127.0.0.1'' 8002"
  using brightness_level_range [where L = 70 and self = "SmartLightDevice ''L1'' ''127.0.0.1'' 8002"]
        brightness_level_range [where L = 101 and self = "SmartLightDevice ''L1'' ''127.0.0.1'' 8002"]
  by simp

section \<open>The smart light: power\<close>

text \<open>
  C4. \<open>perform_action("power", state="on")\<close> returns true and \<open>is_on\<close> is true
  afterwards; with \<open>state="off"\<close> it returns true and \<open>is_on\<close> is false afterwards; with
  any other value of \<open>state\<close>, or none (\<open>kwargs.get\<close> then gives \<open>None\<close>), it returns
  false and the device is as before.
\<close>

theorem power_on_off_other:
  fixes self :: smart_light_device and kw :: kwargs
  shows "fst (perform_action self ''power'' [(''state'', PStr ''on'')] :: light_call) = Inr True
       \<and> is_on (state (fst (snd (perform_action self ''power'' [(''state'', PStr ''on'')]
            :: light_call))))
       \<and> fst (perform_action self ''power'' [(''state'', PStr ''off'')] :: light_call) = Inr True
       \<and> \<not> is_on (state (fst (snd (perform_action self ''power'' [(''state'', PStr ''off'')]
            :: light_call))))
       \<and> (dict_get kw ''state'' \<noteq> PStr ''on'' \<and> dict_get kw ''state'' \<noteq> PStr ''off'' \<longrightarrow>
            fst (perform_action self ''power'' kw :: light_call) = Inr False
            \<and> fst (snd (perform_action self ''power'' kw :: light_call)) = self)"
  by (simp add: perform_action_def dict_get_def)

theorem power_on_off_other_witness:
  "dict_get [] ''state'' \<noteq> PStr ''on'' \<and> dict_get [] ''state'' \<noteq> PStr ''off''
   \<and> fst (perform_action (SmartLightDevice ''L1'' ''127.0.0.1'' 8002) ''power'' []
            :: light_call) = Inr False
   \<and> fst (snd (perform_action (SmartLightDevice ''L1'' ''127.0.0.1'' 8002) ''power'' []
            :: light_call)) = SmartLightDevice ''L1'' ''127.0.0.1'' 8002
   \<and> is_on (state (fst (snd (perform_action (SmartLightDevice ''L1'' ''127.0.0.1'' 8002)
            ''power'' [(''state'', PStr ''on'')] :: light_call))))"
proof -
  have h: "dict_get [] ''state'' \<noteq> PStr ''on'' \<and> dict_get [] ''state'' \<noteq> PStr ''off''"
    by (simp add: dict_get_def)
  show ?thesis
    using h power_on_off_other [where kw = "[]" and self = "SmartLightDevice ''L1'' ''127.0.0.1'' 8002"]
    by simp
qed

section \<open>The smart light: what an action leaves alone\<close>

text \<open>
  C10. The action \<open>power\<close> never changes the brightness, the action \<open>brightness\<close> never
  changes \<open>is_on\<close>, and no call of \<open>perform_action\<close> changes the identity, the host or the
  port, whatever the keyword arguments and also when the call raises.
\<close>

theorem perform_action_frame:
  fixes self :: smart_light_device and kw :: kwargs
  shows "brightness (state (fst (snd (perform_action self ''power'' kw :: light_call))))
           = brightness (state self)
       \<and> is_on (state (fst (snd (perform_action self ''brightness'' kw :: light_call))))
           = is_on (state self)
       \<and> device_id (fst (snd (perform_action self action kw :: light_call))) = device_id self
       \<and> host (fst (snd (perform_action self action kw :: light_call))) = host self
       \<and> port (fst (snd (perform_action self action kw :: light_call))) = port self"
  by (simp add: perform_action_def Let_def split: sum.splits bool.splits)

section \<open>The smart light: status\<close>

text \<open>
  C7. In every state \<open>get_status\<close> returns (it raises nothing and leaves the device as it
  is) a dictionary with exactly the keys \<open>device_id\<close>, \<open>type\<close>, \<open>is_on\<close>,
  \<open>brightness\<close> and \<open>connection\<close>, where \<open>type\<close> is the string \<open>smart_light\<close>,
  \<open>device_id\<close> is the identity, \<open>connection\<close> is the host, a colon and the port in decimal,
  and \<open>is_on\<close> and \<open>brightness\<close> are those of the current state.
\<close>

theorem get_status_snapshot:
  fixes self :: smart_light_device
  shows "\<exists>st. fst (get_status self :: light_status_call) = Inr st
       \<and> fst (snd (get_status self :: light_status_call)) = self
       \<and> map fst st = [''device_id'', ''type'', ''is_on'', ''brightness'', ''connection'']
       \<and> map_of st ''device_id'' = Some (PStr (device_id self))
       \<and> map_of st ''type'' = Some (PStr ''smart_light'')
       \<and> map_of st ''is_on'' = Some (PBool (is_on (state self)))
       \<and> map_of st ''brightness'' = Some (brightness (state self))
       \<and> map_of st ''connection'' = Some (PStr (host self @ '':'' @ str_int (port self)))"
  by (simp add: get_status_def)

lemma get_status_scenario:
  "fst (get_status (fst (snd (perform_action (SmartLightDevice ''L1'' ''127.0.0.1'' 8002)
          ''power'' [(''state'', PStr ''on'')] :: light_call))) :: light_status_call)
   = Inr [(''device_id'', PStr ''L1''), (''type'', PStr ''smart_light''),
          (''is_on'', PBool True), (''brightness'', PInt 50),
          (''connection'', PStr ''127.0.0.1:8002'')]"
  by (simp add: get_status_def perform_action_def dict_get_def SmartLightDevice_def str_int_8002)

section \<open>The smart light: malformed parameters\<close>

text \<open>
  C1 says that \<open>perform_action\<close> never raises and returns false on an absent or malformed
  \<open>level\<close>. The code compares \<open>0 <= level <= 100\<close> on whatever \<open>kwargs.get("level")\<close>
  gives: with no \<open>level\<close> that is \<open>None\<close>, and the comparison raises \<open>TypeError\<close>; so does
  a string.
\<close>

theorem brightness_absent_level_raises:
  "fst (perform_action (SmartLightDevice ''light_001'' ''127.0.0.1'' 8002) ''brightness'' []
          :: light_call) = Inl TypeError
   \<and> fst (perform_action (SmartLightDevice ''light_001'' ''127.0.0.1'' 8002) ''brightness''
          [(''level'', PStr ''50'')] :: light_call) = Inl TypeError"
  by (simp add: perform_action_def dict_get_def int_le_val_def)

text \<open>On well-typed input the contract holds: an unknown action, and any \<open>power\<close> call,
  return a boolean.\<close>

lemma perform_action_unknown:
  "action \<noteq> ''power'' \<Longrightarrow> action \<noteq> ''brightness'' \<Longrightarrow>
   (perform_action self action kw :: light_call) = (Inr False, self, [])"
  by (simp add: perform_action_def)

lemma perform_action_raises_iff:
  "(\<exists>e. fst (perform_action self action kw :: light_call) = Inl e)
     \<longleftrightarrow> action = ''brightness'' \<and> num_value (dict_get kw ''level'') = None"
  by (auto simp: perform_action_def Let_def int_le_val_def val_le_int_def
           split: sum.splits bool.splits option.splits)

section \<open>Dictionaries and path segments\<close>

lemma map_of_dict_set: "map_of (dict_set k v ps) = (map_of ps)(k \<mapsto> v)"
  by (induction ps) (auto simp: fun_eq_iff)

lemma keys_dict_set:
  "map fst (dict_set k v ps) = (if k \<in> set (map fst ps) then map fst ps else map fst ps @ [k])"
  by (induction ps) (auto simp: rev_image_eqI)

lemma distinct_dict_set: "distinct (map fst ps) \<Longrightarrow> distinct (map fst (dict_set k v ps))"
  by (simp add: keys_dict_set)

lemma join_slash: "xs \<noteq> [] \<Longrightarrow> ''/'' @ join ''/'' xs = concat (map (\<lambda>x. ''/'' @ x) xs)"
  by (induction "''/''" xs rule: join.induct) auto

lemma url_path_segments:
  "(if map py_str (map snd kw) \<noteq> [] then (''/'' @ action) @ ''/'' @ join ''/'' (map py_str (map snd kw))
    else ''/'' @ action)
   = ''/'' @ action @ concat (map (\<lambda>v. ''/'' @ py_str v) (map snd kw))"
  using join_slash [of "map py_str (map snd kw)"] by (auto simp: comp_def)

section \<open>The logging decorator is transparent\<close>

text \<open>
  C2. For every wrapped device (its two methods \<open>gs\<close> and \<open>pa\<close> are arbitrary), every
  action name and all keyword arguments, \<open>get_status\<close> and \<open>perform_action\<close> through a
  \<open>LoggingDeviceDecorator\<close> have the outcome of the same call on the wrapped device, a
  raised exception included, and leave the wrapped device in the state that call leaves it
  in; the decorator only prints one line first. The wrapped device may itself be a
  decorator: through two decorators the outcome is still that of the innermost device.
\<close>

theorem decorator_transparent:
  fixes gs :: "'a device_base_scheme \<Rightarrow> 'o \<times> 'a device_base_scheme \<times> 'k log_event list"
    and pa :: "'a device_base_scheme \<Rightarrow> string \<Rightarrow> 'k \<Rightarrow> 'p \<times> 'a device_base_scheme \<times> 'k log_event list"
  shows "fst (logging_get_status gs (LoggingDeviceDecorator d)) = fst (gs d)
       \<and> snd (snd (logging_get_status gs (LoggingDeviceDecorator d)))
           = LogGetStatus (device_id d) # snd (snd (gs d))
       \<and> snd (snd (logging_perform_action pa (LoggingDeviceDecorator d) action kw))
           = LogPerformAction action (device_id d) kw # snd (snd (pa d action kw))
       \<and> wrapped_device (fst (snd (logging_get_status gs (LoggingDeviceDecorator d)))) = fst (snd (gs d))
       \<and> fst (logging_perform_action pa (LoggingDeviceDecorator d) action kw) = fst (pa d action kw)
       \<and> wrapped_device (fst (snd (logging_perform_action pa (LoggingDeviceDecorator d) action kw)))
           = fst (snd (pa d action kw))
       \<and> fst (logging_get_status (logging_get_status gs) (LoggingDeviceDecorator (LoggingDeviceDecorator d)))
           = fst (gs d)
       \<and> fst (logging_perform_action (logging_perform_action pa)
                (LoggingDeviceDecorator (LoggingDeviceDecorator d)) action kw)
           = fst (pa d action kw)"
  by (simp add: logging_get_status_def logging_perform_action_def LoggingDeviceDecorator_def
           split: prod.splits)

lemma decorated_light_scenario:
  "fst (logging_perform_action (logging_perform_action perform_action)
          (LoggingDeviceDecorator (LoggingDeviceDecorator (SmartLightDevice ''L1'' ''127.0.0.1'' 8002)))
          ''brightness'' [(''level'', PInt 70)]) = Inr True
   \<and> state (wrapped_device (wrapped_device (fst (snd
          (logging_perform_action (logging_perform_action perform_action)
          (LoggingDeviceDecorator (LoggingDeviceDecorator (SmartLightDevice ''L1'' ''127.0.0.1'' 8002)))
          ''brightness'' [(''level'', PInt 70)])))))
       = \<lparr>is_on = False, brightness = PInt 70\<rparr>
   \<and> snd (snd (logging_perform_action (logging_perform_action perform_action)
          (LoggingDeviceDecorator (LoggingDeviceDecorator (SmartLightDevice ''L1'' ''127.0.0.1'' 8002)))
          ''brightness'' [(''level'', PInt 70)]))
       = [LogPerformAction ''brightness'' ''L1'' [(''level'', PInt 70)],
          LogPerformAction ''brightness'' ''L1'' [(''level'', PInt 70)]]"
  by (simp add: logging_perform_action_def LoggingDeviceDecorator_def perform_action_def
        SmartLightDevice_def dict_get_def int_le_val_def val_le_int_def)

section \<open>The facade: unknown identities\<close>

text \<open>
  C5. For an identity that is not a key of the registry, \<open>get_device_status\<close> returns
  \<open>None\<close> and \<open>perform_device_action\<close> returns false, and neither issues a request: the
  history of requests is as before.
\<close>

theorem unknown_identity:
  assumes "did \<notin> set (map fst (devices self))"
  shows "get_device_status net self did hist = (JNull, hist)
       \<and> perform_device_action net self did action kw hist = (False, hist)"
proof -
  from assms have "map_of (devices self) did = None"
    by (simp add: map_of_eq_None_iff)
  then show ?thesis
    by (simp add: get_device_status_def perform_device_action_def)
qed

theorem unknown_identity_witness:
  "''L2'' \<notin> set (map fst (devices (snd (register_device IOTFacade
                     (SmartLightDevice ''L1'' ''127.0.0.1'' 8002)))))
   \<and> get_device_status (\<lambda>hist req. Response 200 (Some (JBool True)))
        (snd (register_device IOTFacade (SmartLightDevice ''L1'' ''127.0.0.1'' 8002)))
        ''L2'' [] = (JNull, [])
   \<and> perform_device_action (\<lambda>hist req. Response 200 (Some (JBool True)))
        (snd (register_device IOTFacade (SmartLightDevice ''L1'' ''127.0.0.1'' 8002)))
        ''L2'' ''power'' [(''state'', PStr ''on'')] [] = (False, [])"
proof -
  have h: "''L2'' \<notin> set (map fst (devices (snd (register_device IOTFacade
                     (SmartLightDevice ''L1'' ''127.0.0.1'' 8002)))))"
    by (simp add: register_device_def IOTFacade_def SmartLightDevice_def)
  show ?thesis
    using h unknown_identity [OF h, where net = "\<lambda>hist req. Response 200 (Some (JBool True))"
            and hist = "[]" and action = "''power''" and kw = "[(''state'', PStr ''on'')]"]
    by simp
qed

section \<open>The facade: dispatching an action\<close>

text \<open>
  C8 says that \<open>perform_device_action\<close> returns true iff the device responded with a
  success status, and false on any other response. The code returns true whenever
  \<open>raise_for_status\<close> does not raise, and that method raises for the codes 400 to 599
  only: a device that answers 304, which is not a success status, makes the call return
  true.
\<close>

theorem perform_device_action_304_counterexample:
  "\<not> http_success_status 304
   \<and> answer_with (Response 304 None) [] (POST ''http://127.0.0.1:8002/power/on'' 2)
       = Response 304 None
   \<and> perform_device_action (answer_with (Response 304 None))
        \<lparr>devices = [(''L1'', (''127.0.0.1'', 8002))]\<rparr>
        ''L1'' ''power'' [(''state'', PStr ''on'')] []
       = (True, [POST ''http://127.0.0.1:8002/power/on'' 2])"
  by (simp add: perform_device_action_def answer_with_def raise_for_status_def
        http_success_status_def str_int_8002)

text \<open>
  C8, amended. For a registered identity, \<open>perform_device_action\<close> issues exactly one
  request, a POST with timeout 2 to the device's address, whose path is the action name
  followed by \<open>str\<close> of each keyword argument's value (not its name), in the order
  supplied, each after a slash. It returns true iff the network answered with a response
  whose status code is below 400 or at least 600; a \<open>RequestException\<close> (no connection,
  timeout) and a response with a code from 400 to 599 give false.
\<close>

theorem perform_device_action_request:
  fixes action :: string and kw :: kwargs and h :: string and p :: int
  defines "req \<equiv> POST (''http://'' @ h @ '':'' @ str_int p @ ''/'' @ action
                         @ concat (map (\<lambda>v. ''/'' @ py_str v) (map snd kw))) 2"
  assumes "map_of (devices self) did = Some (h, p)"
  shows "snd (perform_device_action net self did action kw hist) = hist @ [req]
       \<and> (fst (perform_device_action net self did action kw hist)
            \<longleftrightarrow> (\<exists>code body. net hist req = Response code body \<and> (code < 400 \<or> 600 \<le> code)))
       \<and> (net hist req = RequestException
            \<longrightarrow> \<not> fst (perform_device_action net self did action kw hist))
       \<and> (\<forall>code body. net hist req = Response code body \<and> 400 \<le> code \<and> code < 600
            \<longrightarrow> \<not> fst (perform_device_action net self did action kw hist))"
  using assms(2) unfolding req_def perform_device_action_def Let_def url_path_segments
  by (auto simp: raise_for_status_def split: http_reply.splits)

theorem perform_device_action_request_witness:
  "map_of (devices (snd (register_device IOTFacade (SmartLightDevice ''L1'' ''127.0.0.1'' 8002))))
      ''L1'' = Some (''127.0.0.1'', 8002)
   \<and> perform_device_action (answer_with (Response 200 None))
        (snd (register_device IOTFacade (SmartLightDevice ''L1'' ''127.0.0.1'' 8002)))
        ''L1'' ''power'' [(''state'', PStr ''on'')] []
      = (True, [POST ''http://127.0.0.1:8002/power/on'' 2])
   \<and> answer_with (Response 404 None) [] (POST ''http://127.0.0.1:8002/power/on'' 2)
      = Response 404 None
   \<and> perform_device_action (answer_with (Response 404 None))
        (snd (register_device IOTFacade (SmartLightDevice ''L1'' ''127.0.0.1'' 8002)))
        ''L1'' ''power'' [(''state'', PStr ''on'')] []
      = (False, [POST ''http://127.0.0.1:8002/power/on'' 2])
   \<and> answer_with RequestException [] (POST ''http://127.0.0.1:8002/power/on'' 2)
      = RequestException
   \<and> perform_device_action (answer_with RequestException)
        (snd (register_device IOTFacade (SmartLightDevice ''L1'' ''127.0.0.1'' 8002)))
        ''L1'' ''power'' [(''state'', PStr ''on'')] []
      = (False, [POST ''http://127.0.0.1:8002/power/on'' 2])"
proof -
  have h: "map_of (devices (snd (register_device IOTFacade
                     (SmartLightDevice ''L1'' ''127.0.0.1'' 8002)))) ''L1''
           = Some (''127.0.0.1'', 8002)"
    by (simp add: register_device_def IOTFacade_def SmartLightDevice_def)
  show ?thesis
    using h
      perform_device_action_request [OF h, where action = "''power''"
        and kw = "[(''state'', PStr ''on'')]" and net = "answer_with (Response 200 None)"
        and hist = "[]"]
      perform_device_action_request [OF h, where action = "''power''"
        and kw = "[(''state'', PStr ''on'')]" and net = "answer_with (Response 404 None)"
        and hist = "[]"]
      perform_device_action_request [OF h, where action = "''power''"
        and kw = "[(''state'', PStr ''on'')]" and net = "answer_with RequestException"
        and hist = "[]"]
    by (simp add: prod_eq_iff str_int_8002 answer_with_def)
qed

section \<open>The facade: registration\<close>

text \<open>
  C9. Registering a device always returns the confirmation string and a registry in which
  the device's identity maps to its host and port, every other identity as before; a
  status lookup or an action under that identity right afterwards sends its request to
  that host and port.
\<close>

theorem register_then_lookup:
  fixes d :: "'a device_base_scheme"
  shows "fst (register_device self d) = ''Device '' @ device_id d @ '' registered successfully''
       \<and> map_of (devices (snd (register_device self d)))
           = (map_of (devices self))(device_id d \<mapsto> (host d, port d))
       \<and> snd (get_device_status net (snd (register_device self d)) (device_id d) hist)
           = hist @ [GET (''http://'' @ host d @ '':'' @ str_int (port d) @ ''/status'') 2]
       \<and> snd (perform_device_action net (snd (register_device self d)) (device_id d) action kw hist)
           = hist @ [POST (''http://'' @ host d @ '':'' @ str_int (port d) @ ''/'' @ action
                         @ concat (map (\<lambda>v. ''/'' @ py_str v) (map snd kw))) 2]"
  unfolding perform_device_action_def get_device_status_def Let_def url_path_segments
  by (auto simp: register_device_def map_of_dict_set split: http_reply.splits option.splits)

lemma register_twice_keeps_position:
  "map fst (devices (snd (register_device (snd (register_device
       (snd (register_device IOTFacade (SmartLightDevice ''A'' ''h1'' 1)))
       (SmartLightDevice ''B'' ''h2'' 2))) (SmartLightDevice ''A'' ''h3'' 3)))) = [''A'', ''B'']"
  by (simp add: register_device_def IOTFacade_def SmartLightDevice_def)

section \<open>The facade: all statuses\<close>

text \<open>
  What the loop of \<open>get_all_status\<close> collects, for a network whose answers do not depend
  on the history: the results of \<open>get_device_status\<close> that Python takes for true, in
  the order of the registry.
\<close>

lemma get_device_status_stateless:
  assumes "\<forall>h. net h = net []"
  shows "fst (get_device_status net self did hist) = fst (get_device_status net self did [])"
proof -
  have "net hist = net []" using assms by simp
  then show ?thesis
    by (simp add: get_device_status_def Let_def split: option.splits http_reply.splits)
qed

lemma get_all_status_loop_truthy:
  assumes "\<forall>h. net h = net []"
  shows "fst (get_all_status_loop net self dids statuses hist)
         = statuses @ filter truthy (map (\<lambda>did. fst (get_device_status net self did [])) dids)"
proof (induction dids arbitrary: statuses hist)
  case Nil
  then show ?case by simp
next
  case (Cons did dids)
  obtain status hist' where g: "get_device_status net self did hist = (status, hist')"
    by (cases "get_device_status net self did hist")
  have s: "fst (get_device_status net self did []) = status"
    using get_device_status_stateless [OF assms, where self = self and did = did and hist = hist] g by simp
  show ?case
    using Cons.IH [of "if truthy status then statuses @ [status] else statuses" hist'] g s
    by simp
qed

lemma get_all_status_truthy:
  assumes "\<forall>h. net h = net []"
  shows "fst (get_all_status net self hist)
         = filter truthy (map (\<lambda>did. fst (get_device_status net self did [])) (map fst (devices self)))"
  using get_all_status_loop_truthy [OF assms, where self = self and dids = "map fst (devices self)"
          and statuses = "[]" and hist = hist]
  by (simp add: get_all_status_def)

lemma get_all_status_reachable_unreachable:
  "fst (get_all_status
          (\<lambda>hist req. if req = GET ''http://127.0.0.1:8002/status'' 2
                       then Response 200 (Some (JObject [(''device_id'', JStr ''A'')]))
                       else RequestException)
          \<lparr>devices = [(''A'', (''127.0.0.1'', 8002)), (''B'', (''127.0.0.1'', 8003))]\<rparr> [])
   = [JObject [(''device_id'', JStr ''A'')]]"
  by (simp add: get_all_status_def get_device_status_def raise_for_status_def str_int_def
        str_nat_step str_nat_digit digit_char_def)

text \<open>
  C6 says that \<open>get_all_status\<close> returns exactly the results of \<open>get_device_status\<close>
  that are not \<open>None\<close>. The loop tests \<open>if status:\<close>, so a status that is an empty
  dictionary is dropped as well: for a device that answers \<open>{}\<close>,
  \<open>get_device_status\<close> returns \<open>{}\<close>, which is not \<open>None\<close>, and
  \<open>get_all_status\<close> returns the empty list.
\<close>

theorem get_all_status_drops_empty_status:
  "fst (get_device_status (\<lambda>hist req. Response 200 (Some (JObject [])))
          \<lparr>devices = [(''A'', (''127.0.0.1'', 8002))]\<rparr> ''A'' []) = JObject []
   \<and> JObject [] \<noteq> JNull
   \<and> fst (get_all_status (\<lambda>hist req. Response 200 (Some (JObject [])))
          \<lparr>devices = [(''A'', (''127.0.0.1'', 8002))]\<rparr> []) = []"
  by (simp add: get_all_status_def get_device_status_def raise_for_status_def)

end
